theory Spec2Isabelle
  imports Complex_Main
begin

section \<open>Numbers and bracket tables\<close>

text \<open>
  The two tax modules (\<^verbatim>\<open>cn_tax.py\<close>, \<^verbatim>\<open>us_tax.py\<close>) compute with Python floats.
  Amounts and rates are modelled as exact real numbers: a decimal literal such as
  \<^verbatim>\<open>0.03\<close> is the rational 3/100, and rounding of binary floating point is not
  modelled. The only non-finite value the modules write down themselves is
  \<^verbatim>\<open>float('inf')\<close>, the upper bound of the last bracket of every table; it is the
  constructor \<open>Infty\<close> of the type of upper bounds. NaN has no counterpart.
\<close>

datatype bound = Fin real | Infty

text \<open>\<^verbatim>\<open>upper - lower\<close> for a finite \<^verbatim>\<open>lower\<close>: \<^verbatim>\<open>inf - lower\<close> is \<^verbatim>\<open>inf\<close>.\<close>

fun bound_minus :: "bound \<Rightarrow> real \<Rightarrow> bound" where
  "bound_minus (Fin u) l = Fin (u - l)"
| "bound_minus Infty l = Infty"

text \<open>\<^verbatim>\<open>min(x, w)\<close> for a finite \<^verbatim>\<open>x\<close>: \<^verbatim>\<open>min(x, inf)\<close> is \<^verbatim>\<open>x\<close>.\<close>

fun min_bound :: "real \<Rightarrow> bound \<Rightarrow> real" where
  "min_bound x (Fin w) = min x w"
| "min_bound x Infty = x"

text \<open>\<^verbatim>\<open>x <= upper\<close> for a finite \<^verbatim>\<open>x\<close>.\<close>

fun le_bound :: "real \<Rightarrow> bound \<Rightarrow> bool" where
  "le_bound x (Fin u) = (x \<le> u)"
| "le_bound x Infty = True"

text \<open>
  \<^verbatim>\<open>us_tax.TaxBracket\<close> is a dataclass with the fields \<^verbatim>\<open>lower\<close>, \<^verbatim>\<open>upper\<close>,
  \<^verbatim>\<open>rate\<close>; the rows of \<^verbatim>\<open>cn_tax.TaxConstants.TAX_BRACKETS\<close> are tuples
  \<^verbatim>\<open>(lower, upper, rate)\<close> that the loops unpack under the same three names. Both are
  the one record below.
\<close>

record TaxBracket =
  lower :: real
  upper :: bound
  rate :: real

definition bracket :: "real \<Rightarrow> bound \<Rightarrow> real \<Rightarrow> TaxBracket" where
  "bracket l u r = \<lparr>lower = l, upper = u, rate = r\<rparr>"

text \<open>
  The BracketTable invariant of the data model: the ranges are contiguous and ascending,
  the \<^verbatim>\<open>lower\<close> of a range is the \<^verbatim>\<open>upper\<close> of the one before, the first
  \<^verbatim>\<open>lower\<close> is 0, only the last \<^verbatim>\<open>upper\<close> is infinite, and every rate lies in
  \<open>[0, 1]\<close>. \<open>chain l T\<close> says so for a table whose first range starts at \<open>l\<close>.
\<close>

fun chain :: "real \<Rightarrow> TaxBracket list \<Rightarrow> bool" where
  "chain l [] = False"
| "chain l (b # bs) =
     (lower b = l \<and> 0 \<le> rate b \<and> rate b \<le> 1 \<and>
      (case upper b of Fin u \<Rightarrow> l < u \<and> chain u bs | Infty \<Rightarrow> bs = []))"

definition valid_table :: "TaxBracket list \<Rightarrow> bool" where
  "valid_table T = chain 0 T"

text \<open>What a range that is filled completely contributes: its width times its rate.\<close>

fun full_contribution :: "TaxBracket \<Rightarrow> real" where
  "full_contribution b = (case upper b of Fin u \<Rightarrow> (u - lower b) * rate b | Infty \<Rightarrow> 0)"

text \<open>
  What one range adds to the liability at the amount \<open>x\<close>, as the loop of
  \<^verbatim>\<open>cn_tax.calculate_tax\<close> computes it (the body of its \<^verbatim>\<open>if\<close>).
\<close>

fun contribution :: "TaxBracket \<Rightarrow> real \<Rightarrow> real" where
  "contribution b x =
     (if x > lower b then min_bound (x - lower b) (bound_minus (upper b) (lower b)) * rate b
      else 0)"

section \<open>The two bracket loops\<close>

text \<open>
  The loop of \<^verbatim>\<open>cn_tax.calculate_tax\<close>, with the table as a parameter and the
  accumulator \<^verbatim>\<open>tax\<close> passed along:
  \<^verbatim>\<open>
  for lower, upper, rate in TaxConstants.TAX_BRACKETS:
      if annual_taxable > lower:
          tax_part = min(annual_taxable - lower, upper - lower) * rate
          tax += tax_part
  \<close>
\<close>

fun cn_bracket_loop :: "TaxBracket list \<Rightarrow> real \<Rightarrow> real \<Rightarrow> real" where
  "cn_bracket_loop [] annual_taxable tax = tax"
| "cn_bracket_loop (b # bs) annual_taxable tax =
     (if annual_taxable > lower b
      then cn_bracket_loop bs annual_taxable
             (tax + min_bound (annual_taxable - lower b) (bound_minus (upper b) (lower b)) * rate b)
      else cn_bracket_loop bs annual_taxable tax)"

text \<open>
  The loop of \<^verbatim>\<open>us_tax.calculate_federal_tax\<close> and \<^verbatim>\<open>calculate_ca_state_tax\<close>:
  \<^verbatim>\<open>
  for bracket in TaxConstants.FEDERAL_BRACKETS[filing_status]:
      if remaining_income <= 0:
          break
      taxable_amount = min(remaining_income, bracket.upper - bracket.lower)
      total_tax += taxable_amount * bracket.rate
      remaining_income -= taxable_amount
  \<close>
\<close>

fun us_bracket_loop :: "TaxBracket list \<Rightarrow> real \<Rightarrow> real \<Rightarrow> real" where
  "us_bracket_loop [] remaining_income total_tax = total_tax"
| "us_bracket_loop (b # bs) remaining_income total_tax =
     (if remaining_income \<le> 0 then total_tax
      else (let taxable_amount = min_bound remaining_income (bound_minus (upper b) (lower b))
            in us_bracket_loop bs (remaining_income - taxable_amount)
                 (total_tax + taxable_amount * rate b)))"

text \<open>
  The marginal-rate lookup both modules use (\<^verbatim>\<open>calculate_marginal_rates\<close>), the rate
  starting at 0:
  \<^verbatim>\<open>
  for bracket in brackets:
      if bracket.lower <= income <= bracket.upper:
          rate = bracket.rate
          break
  \<close>
\<close>

fun bracket_rate_lookup :: "TaxBracket list \<Rightarrow> real \<Rightarrow> real" where
  "bracket_rate_lookup [] income = 0"
| "bracket_rate_lookup (b # bs) income =
     (if lower b \<le> income \<and> le_bound income (upper b) then rate b
      else bracket_rate_lookup bs income)"

section \<open>cn_tax.py\<close>

definition TAX_FREE_THRESHOLD :: real where
  "TAX_FREE_THRESHOLD = 5000"

definition TAX_BRACKETS :: "TaxBracket list" where
  "TAX_BRACKETS =
    [bracket 0 (Fin 36000) 0.03,
     bracket 36000 (Fin 144000) 0.10,
     bracket 144000 (Fin 300000) 0.20,
     bracket 300000 (Fin 420000) 0.25,
     bracket 420000 (Fin 660000) 0.30,
     bracket 660000 (Fin 960000) 0.35,
     bracket 960000 Infty 0.45]"

definition SOCIAL_INSURANCE_BASE_MIN :: real where "SOCIAL_INSURANCE_BASE_MIN = 3613"
definition SOCIAL_INSURANCE_BASE_MAX :: real where "SOCIAL_INSURANCE_BASE_MAX = 31884"
definition HOUSING_FUND_BASE_MAX :: real where "HOUSING_FUND_BASE_MAX = 31884"

definition PENSION_RATE :: real where "PENSION_RATE = 0.08"
definition MEDICAL_RATE :: real where "MEDICAL_RATE = 0.02"
definition UNEMPLOYMENT_RATE :: real where "UNEMPLOYMENT_RATE = 0.005"
definition HOUSING_FUND_RATE :: real where "HOUSING_FUND_RATE = 0.12"

definition EMPLOYER_PENSION_RATE :: real where "EMPLOYER_PENSION_RATE = 0.16"
definition EMPLOYER_MEDICAL_RATE :: real where "EMPLOYER_MEDICAL_RATE = 0.095"
definition EMPLOYER_UNEMPLOYMENT_RATE :: real where "EMPLOYER_UNEMPLOYMENT_RATE = 0.005"
definition EMPLOYER_INJURY_RATE :: real where "EMPLOYER_INJURY_RATE = 0.004"
definition EMPLOYER_MATERNITY_RATE :: real where "EMPLOYER_MATERNITY_RATE = 0.008"
definition EMPLOYER_HOUSING_FUND_RATE :: real where "EMPLOYER_HOUSING_FUND_RATE = 0.12"

text \<open>The dataclass \<^verbatim>\<open>SpecialDeductions\<close>.\<close>

record SpecialDeductions =
  housing_rent :: real
  housing_loan :: real
  children_edu :: real
  continuing_edu :: real
  elderly_care :: real
  medical_expense :: real

definition no_deductions :: SpecialDeductions where
  "no_deductions = \<lparr>housing_rent = 0, housing_loan = 0, children_edu = 0,
     continuing_edu = 0, elderly_care = 0, medical_expense = 0\<rparr>"

text \<open>
  The dictionary \<^verbatim>\<open>calculate_social_insurance\<close> returns, with its two inner
  dictionaries. The keys of the employer's dictionary repeat those of the personal one, so
  its fields carry the names of the local variables they are filled from.
\<close>

record personal_part =
  pension :: real
  medical :: real
  unemployment :: real
  housing_fund :: real
  personal_total :: real

record employer_part =
  employer_pension :: real
  employer_medical :: real
  employer_unemployment :: real
  employer_injury :: real
  employer_maternity :: real
  employer_housing_fund :: real
  employer_total :: real

record social_insurance =
  personal :: personal_part
  employer :: employer_part
  base :: real

definition calculate_social_insurance :: "real \<Rightarrow> social_insurance" where
  "calculate_social_insurance monthly_salary =
    (let base = min (max monthly_salary SOCIAL_INSURANCE_BASE_MIN) SOCIAL_INSURANCE_BASE_MAX;
         pension = base * PENSION_RATE;
         medical = base * MEDICAL_RATE;
         unemployment = base * UNEMPLOYMENT_RATE;
         housing_fund = base * HOUSING_FUND_RATE;
         employer_pension = base * EMPLOYER_PENSION_RATE;
         employer_medical = base * EMPLOYER_MEDICAL_RATE;
         employer_unemployment = base * EMPLOYER_UNEMPLOYMENT_RATE;
         employer_injury = base * EMPLOYER_INJURY_RATE;
         employer_maternity = base * EMPLOYER_MATERNITY_RATE;
         employer_housing_fund = base * EMPLOYER_HOUSING_FUND_RATE;
         personal_total = pension + medical + unemployment + housing_fund;
         employer_total = employer_pension + employer_medical + employer_unemployment +
                          employer_injury + employer_maternity + employer_housing_fund
     in \<lparr>personal = \<lparr>pension = pension, medical = medical, unemployment = unemployment,
                       housing_fund = housing_fund, personal_total = personal_total\<rparr>,
         employer = \<lparr>employer_pension = employer_pension, employer_medical = employer_medical,
                       employer_unemployment = employer_unemployment,
                       employer_injury = employer_injury,
                       employer_maternity = employer_maternity,
                       employer_housing_fund = employer_housing_fund,
                       employer_total = employer_total\<rparr>,
         base = base\<rparr>)"

text \<open>The dictionary of \<^verbatim>\<open>cn_tax.calculate_marginal_rates\<close>.\<close>

record cn_marginal_rates =
  tax_rate :: real
  insurance_rate :: real
  housing_fund_rate :: real
  total_rate :: real

definition cn_calculate_marginal_rates :: "real \<Rightarrow> cn_marginal_rates" where
  "cn_calculate_marginal_rates monthly_salary =
    (let annual_income = monthly_salary * 12;
         tax_rate = bracket_rate_lookup TAX_BRACKETS annual_income;
         insurance_rate = (if monthly_salary \<le> SOCIAL_INSURANCE_BASE_MAX
                           then PENSION_RATE + MEDICAL_RATE + UNEMPLOYMENT_RATE else 0);
         housing_fund_rate = (if monthly_salary \<le> HOUSING_FUND_BASE_MAX
                              then HOUSING_FUND_RATE else 0)
     in \<lparr>tax_rate = tax_rate, insurance_rate = insurance_rate,
         housing_fund_rate = housing_fund_rate,
         total_rate = tax_rate + insurance_rate + housing_fund_rate\<rparr>)"

text \<open>The dictionary of \<^verbatim>\<open>cn_tax.calculate_tax\<close>.\<close>

record cn_tax_result =
  gross_salary :: real
  insurance :: social_insurance
  special_deductions :: real
  taxable_income :: real
  tax :: real
  net_income :: real

definition calculate_tax :: "real \<Rightarrow> SpecialDeductions \<Rightarrow> cn_tax_result" where
  "calculate_tax monthly_salary deductions =
    (let insurance = calculate_social_insurance monthly_salary;
         special_deductions = housing_rent deductions + housing_loan deductions +
                              children_edu deductions + continuing_edu deductions +
                              elderly_care deductions + medical_expense deductions;
         taxable_income = monthly_salary - TAX_FREE_THRESHOLD - personal_total (personal insurance) -
                          special_deductions;
         tax = (if taxable_income > 0
                then cn_bracket_loop TAX_BRACKETS (taxable_income * 12) 0 else 0);
         monthly_tax = tax / 12;
         net_income = monthly_salary - monthly_tax - personal_total (personal insurance)
     in \<lparr>gross_salary = monthly_salary, insurance = insurance,
         special_deductions = special_deductions, taxable_income = taxable_income,
         tax = monthly_tax, net_income = net_income\<rparr>)"

section \<open>us_tax.py\<close>

text \<open>
  A dictionary indexed by a filing status that is not one of its keys raises
  \<^verbatim>\<open>KeyError\<close>: the lookups below return it as a value.
\<close>

datatype error = KeyError

definition bind_err :: "error + 'a \<Rightarrow> ('a \<Rightarrow> error + 'b) \<Rightarrow> error + 'b" where
  "bind_err m f = (case m of Inl e \<Rightarrow> Inl e | Inr x \<Rightarrow> f x)"

definition lookup_status :: "(string \<times> 'a) list \<Rightarrow> string \<Rightarrow> error + 'a" where
  "lookup_status d filing_status =
     (case map_of d filing_status of None \<Rightarrow> Inl KeyError | Some v \<Rightarrow> Inr v)"

definition MAX_401K :: real where "MAX_401K = 23000"
definition SS_LIMIT :: real where "SS_LIMIT = 168600"
definition SDI_LIMIT :: real where "SDI_LIMIT = 153164"
definition MEDICARE_THRESHOLD :: real where "MEDICARE_THRESHOLD = 200000"

definition FEDERAL_BRACKETS :: "(string \<times> TaxBracket list) list" where
  "FEDERAL_BRACKETS =
    [(''single'',
      [bracket 0 (Fin 11600) 0.10,
       bracket 11600 (Fin 47150) 0.12,
       bracket 47150 (Fin 100525) 0.22,
       bracket 100525 (Fin 191950) 0.24,
       bracket 191950 (Fin 243725) 0.32,
       bracket 243725 (Fin 609350) 0.35,
       bracket 609350 Infty 0.37]),
     (''married'',
      [bracket 0 (Fin 23200) 0.10,
       bracket 23200 (Fin 94300) 0.12,
       bracket 94300 (Fin 201050) 0.22,
       bracket 201050 (Fin 383900) 0.24,
       bracket 383900 (Fin 487450) 0.32,
       bracket 487450 (Fin 731200) 0.35,
       bracket 731200 Infty 0.37])]"

definition CA_BRACKETS :: "(string \<times> TaxBracket list) list" where
  "CA_BRACKETS =
    [(''single'',
      [bracket 0 (Fin 10412) 0.01,
       bracket 10412 (Fin 24684) 0.02,
       bracket 24684 (Fin 38959) 0.04,
       bracket 38959 (Fin 54081) 0.06,
       bracket 54081 (Fin 68350) 0.08,
       bracket 68350 (Fin 349137) 0.093,
       bracket 349137 (Fin 418961) 0.103,
       bracket 418961 (Fin 698272) 0.113,
       bracket 698272 Infty 0.123]),
     (''married'',
      [bracket 0 (Fin 20824) 0.01,
       bracket 20824 (Fin 49368) 0.02,
       bracket 49368 (Fin 77918) 0.04,
       bracket 77918 (Fin 108162) 0.06,
       bracket 108162 (Fin 136700) 0.08,
       bracket 136700 (Fin 698274) 0.093,
       bracket 698274 (Fin 837922) 0.103,
       bracket 837922 (Fin 1396544) 0.113,
       bracket 1396544 Infty 0.123])]"

definition STANDARD_DEDUCTION :: "(string \<times> real) list" where
  "STANDARD_DEDUCTION = [(''single'', 14600), (''married'', 29200)]"

definition CA_STANDARD_DEDUCTION :: "(string \<times> real) list" where
  "CA_STANDARD_DEDUCTION = [(''single'', 5363), (''married'', 10726)]"

definition calculate_federal_tax :: "real \<Rightarrow> string \<Rightarrow> error + real" where
  "calculate_federal_tax income filing_status =
     bind_err (lookup_status STANDARD_DEDUCTION filing_status) (\<lambda>standard_deduction.
       let taxable_income = max 0 (income - standard_deduction) in
       bind_err (lookup_status FEDERAL_BRACKETS filing_status) (\<lambda>brackets.
         Inr (us_bracket_loop brackets taxable_income 0)))"

definition calculate_ca_state_tax :: "real \<Rightarrow> real \<Rightarrow> string \<Rightarrow> error + real" where
  "calculate_ca_state_tax income capital_gains filing_status =
     bind_err (lookup_status CA_STANDARD_DEDUCTION filing_status) (\<lambda>standard_deduction.
       let taxable_income = max 0 (income + capital_gains - standard_deduction) in
       bind_err (lookup_status CA_BRACKETS filing_status) (\<lambda>brackets.
         Inr (us_bracket_loop brackets taxable_income 0)))"

text \<open>The dictionary of \<^verbatim>\<open>calculate_fica_taxes\<close>.\<close>

record fica =
  social_security :: real
  medicare :: real
  additional_medicare :: real
  fica_total :: real

definition calculate_fica_taxes :: "real \<Rightarrow> fica" where
  "calculate_fica_taxes income =
    (let ss_tax = min income SS_LIMIT * 0.062;
         medicare_tax = income * 0.0145;
         additional_medicare =
           (if income > MEDICARE_THRESHOLD then (income - MEDICARE_THRESHOLD) * 0.009 else 0)
     in \<lparr>social_security = ss_tax, medicare = medicare_tax,
         additional_medicare = additional_medicare,
         fica_total = ss_tax + medicare_tax + additional_medicare\<rparr>)"

definition calculate_ca_sdi :: "real \<Rightarrow> real" where
  "calculate_ca_sdi income = min income SDI_LIMIT * 0.009"

text \<open>
  \<^verbatim>\<open>calculate_capital_gains_tax\<close>: the first bracket that holds the total income gives
  the rate; the line after the loop applies 0.20.
\<close>

definition CAPITAL_GAINS_BRACKETS :: "(string \<times> TaxBracket list) list" where
  "CAPITAL_GAINS_BRACKETS =
    [(''single'',
      [bracket 0 (Fin 44625) 0,
       bracket 44625 (Fin 492300) 0.15,
       bracket 492300 Infty 0.20]),
     (''married'',
      [bracket 0 (Fin 89250) 0,
       bracket 89250 (Fin 553850) 0.15,
       bracket 553850 Infty 0.20])]"

fun capital_gains_loop :: "TaxBracket list \<Rightarrow> real \<Rightarrow> real \<Rightarrow> real" where
  "capital_gains_loop [] total_income capital_gains = capital_gains * 0.20"
| "capital_gains_loop (b # bs) total_income capital_gains =
     (if lower b \<le> total_income \<and> le_bound total_income (upper b)
      then capital_gains * rate b
      else capital_gains_loop bs total_income capital_gains)"

definition calculate_capital_gains_tax :: "real \<Rightarrow> real \<Rightarrow> string \<Rightarrow> error + real" where
  "calculate_capital_gains_tax capital_gains income filing_status =
     (let total_income = income + capital_gains in
      bind_err (lookup_status CAPITAL_GAINS_BRACKETS filing_status) (\<lambda>brackets.
        Inr (capital_gains_loop brackets total_income capital_gains)))"

text \<open>The dictionary of \<^verbatim>\<open>us_tax.calculate_marginal_rates\<close>.\<close>

record us_marginal_rates =
  federal :: real
  california :: real
  fica_rate :: real
  sdi_rate :: real
  us_total_rate :: real

definition us_calculate_marginal_rates :: "real \<Rightarrow> string \<Rightarrow> error + us_marginal_rates" where
  "us_calculate_marginal_rates income filing_status =
     bind_err (lookup_status FEDERAL_BRACKETS filing_status) (\<lambda>federal_brackets.
       let federal_rate = bracket_rate_lookup federal_brackets income in
       bind_err (lookup_status CA_BRACKETS filing_status) (\<lambda>ca_brackets.
         let ca_rate = bracket_rate_lookup ca_brackets income;
             fica_rate = 0.0145 + (if income \<le> SS_LIMIT then 0.062 else 0)
                                + (if income > MEDICARE_THRESHOLD then 0.009 else 0);
             sdi_rate = (if income \<le> SDI_LIMIT then 0.009 else 0)
         in Inr \<lparr>federal = federal_rate, california = ca_rate, fica_rate = fica_rate,
                  sdi_rate = sdi_rate,
                  us_total_rate = federal_rate + ca_rate + fica_rate + sdi_rate\<rparr>))"

text \<open>The dataclass \<^verbatim>\<open>TaxResult\<close>.\<close>

record TaxResult =
  federal_tax :: real
  capital_gains_tax :: real
  ca_tax :: real
  fica_taxes :: fica
  sdi_tax :: real
  total_tax :: real
  us_net_income :: real
  marginal_rates :: us_marginal_rates

text \<open>
  \<^verbatim>\<open>calculate_tax_results\<close>: the body of its loop for one filing status, then the loop
  over \<^verbatim>\<open>["single", "married"]\<close>, which fills the dictionary \<^verbatim>\<open>results\<close> (an
  association list in insertion order).
\<close>

definition tax_result_for :: "real \<Rightarrow> real \<Rightarrow> real \<Rightarrow> string \<Rightarrow> error + TaxResult" where
  "tax_result_for annual_income capital_gains actual_401k status =
    (let adjusted_income = annual_income - actual_401k in
     bind_err (calculate_federal_tax adjusted_income status) (\<lambda>federal_tax.
     bind_err (calculate_capital_gains_tax capital_gains adjusted_income status) (\<lambda>capital_gains_tax.
     let fica_taxes = calculate_fica_taxes annual_income in
     bind_err (calculate_ca_state_tax adjusted_income capital_gains status) (\<lambda>ca_tax.
     let sdi_tax = calculate_ca_sdi annual_income;
         total_tax = federal_tax + capital_gains_tax + ca_tax + fica_total fica_taxes + sdi_tax;
         total_income = annual_income + capital_gains;
         net_income = total_income - total_tax - actual_401k in
     bind_err (us_calculate_marginal_rates adjusted_income status) (\<lambda>marginal_rates.
       Inr \<lparr>federal_tax = federal_tax, capital_gains_tax = capital_gains_tax, ca_tax = ca_tax,
             fica_taxes = fica_taxes, sdi_tax = sdi_tax, total_tax = total_tax,
             us_net_income = net_income, marginal_rates = marginal_rates\<rparr>)))))"

fun tax_results_loop ::
  "string list \<Rightarrow> real \<Rightarrow> real \<Rightarrow> real \<Rightarrow> (string \<times> TaxResult) list \<Rightarrow>
   error + (string \<times> TaxResult) list" where
  "tax_results_loop [] annual_income capital_gains actual_401k results = Inr results"
| "tax_results_loop (status # rest) annual_income capital_gains actual_401k results =
     bind_err (tax_result_for annual_income capital_gains actual_401k status) (\<lambda>r.
       tax_results_loop rest annual_income capital_gains actual_401k (results @ [(status, r)]))"

definition calculate_tax_results ::
  "real \<Rightarrow> real \<Rightarrow> real \<Rightarrow> error + (string \<times> TaxResult) list" where
  "calculate_tax_results annual_income capital_gains actual_401k =
     tax_results_loop [''single'', ''married''] annual_income capital_gains actual_401k []"

section \<open>Unfolding the constants\<close>

lemmas cn_constants =
  TAX_FREE_THRESHOLD_def SOCIAL_INSURANCE_BASE_MIN_def SOCIAL_INSURANCE_BASE_MAX_def
  HOUSING_FUND_BASE_MAX_def PENSION_RATE_def MEDICAL_RATE_def UNEMPLOYMENT_RATE_def
  HOUSING_FUND_RATE_def EMPLOYER_PENSION_RATE_def EMPLOYER_MEDICAL_RATE_def
  EMPLOYER_UNEMPLOYMENT_RATE_def EMPLOYER_INJURY_RATE_def EMPLOYER_MATERNITY_RATE_def
  EMPLOYER_HOUSING_FUND_RATE_def

lemmas us_constants =
  MAX_401K_def SS_LIMIT_def SDI_LIMIT_def MEDICARE_THRESHOLD_def

lemmas us_tables =
  FEDERAL_BRACKETS_def CA_BRACKETS_def STANDARD_DEDUCTION_def CA_STANDARD_DEDUCTION_def
  CAPITAL_GAINS_BRACKETS_def

section \<open>The bracket loops as sums over the table\<close>

lemma cn_loop_sum: "cn_bracket_loop bs x acc = acc + (\<Sum>b\<leftarrow>bs. contribution b x)"
  by (induction bs arbitrary: acc) auto

lemma us_loop_nonpos: "r \<le> 0 \<Longrightarrow> us_bracket_loop bs r acc = acc"
  by (cases bs) auto

lemma chain_lower_ge: "chain l (pre @ b # post) \<Longrightarrow> l \<le> lower b"
  by (induction pre arbitrary: l) (fastforce split: bound.splits)+

lemma contribution_zero: "chain l bs \<Longrightarrow> x \<le> l \<Longrightarrow> (\<Sum>b\<leftarrow>bs. contribution b x) = 0"
  by (induction bs arbitrary: l) (auto split: bound.splits)

lemma us_loop_sum:
  "chain l bs \<Longrightarrow> l \<le> x \<Longrightarrow>
   us_bracket_loop bs (x - l) acc = acc + (\<Sum>b\<leftarrow>bs. contribution b x)"
proof (induction bs arbitrary: l acc)
  case Nil
  then show ?case by simp
next
  case (Cons b bs)
  from Cons.prems have lb: "lower b = l" by simp
  show ?case
  proof (cases "upper b")
    case Infty
    with Cons.prems lb show ?thesis by (auto simp: Let_def)
  next
    case (Fin u)
    with Cons.prems have lu: "l < u" and ch: "chain u bs" by simp_all
    show ?thesis
    proof (cases "x \<le> u")
      case True
      then have z: "(\<Sum>b\<leftarrow>bs. contribution b x) = 0" using contribution_zero[OF ch] by simp
      from True Fin lb Cons.prems z show ?thesis
        by (auto simp: Let_def min_def us_loop_nonpos)
    next
      case False
      then have "u \<le> x" by simp
      from Cons.IH[OF ch this] False Fin lb lu Cons.prems show ?thesis
        by (auto simp: Let_def min_def)
    qed
  qed
qed

lemma piece_sum:
  "chain l (pre @ b # post) \<Longrightarrow> lower b \<le> x \<Longrightarrow> le_bound x (upper b) \<Longrightarrow>
   (\<Sum>c\<leftarrow>pre @ b # post. contribution c x) =
     (\<Sum>c\<leftarrow>pre. full_contribution c) + (x - lower b) * rate b"
proof (induction pre arbitrary: l)
  case Nil
  show ?case
  proof (cases "upper b")
    case Infty
    with Nil show ?thesis by auto
  next
    case (Fin u)
    with Nil have "chain u post" "x \<le> u" by simp_all
    then have "(\<Sum>c\<leftarrow>post. contribution c x) = 0" by (rule contribution_zero)
    with Fin Nil show ?thesis by (auto simp: min_def)
  qed
next
  case (Cons c pre)
  from Cons.prems(1) obtain u where u: "upper c = Fin u" "lower c = l" "l < u"
      "chain u (pre @ b # post)"
    by (auto split: bound.splits)
  from chain_lower_ge[OF u(4)] Cons.prems(2) have "u \<le> x" by simp
  with u Cons.IH[OF u(4) Cons.prems(2,3)] show ?case
    by (auto simp: min_def)
qed

lemma contribution_mono:
  "chain l bs \<Longrightarrow> x \<le> y \<Longrightarrow> (\<Sum>b\<leftarrow>bs. contribution b x) \<le> (\<Sum>b\<leftarrow>bs. contribution b y)"
proof (induction bs arbitrary: l)
  case Nil
  then show ?case by simp
next
  case (Cons b bs)
  have "contribution b x \<le> contribution b y"
    using Cons.prems by (cases "upper b") (auto simp: min_def mult_right_mono)
  moreover have "(\<Sum>b\<leftarrow>bs. contribution b x) \<le> (\<Sum>b\<leftarrow>bs. contribution b y)"
  proof (cases "upper b")
    case Infty
    with Cons.prems show ?thesis by simp
  next
    case (Fin u)
    with Cons.prems Cons.IH[of u] show ?thesis by simp
  qed
  ultimately show ?case by simp
qed

lemma contribution_max:
  "lower b < u \<Longrightarrow> upper b = Fin u \<Longrightarrow>
   contribution b = (\<lambda>x. max 0 (min (x - lower b) (u - lower b)) * rate b)"
  by (auto simp: fun_eq_iff min_def max_def)

lemma contribution_max_infty:
  "upper b = Infty \<Longrightarrow> contribution b = (\<lambda>x. max 0 (x - lower b) * rate b)"
  by (auto simp: fun_eq_iff max_def)

lemma contribution_continuous:
  "chain l bs \<Longrightarrow> continuous_on UNIV (\<lambda>x. \<Sum>b\<leftarrow>bs. contribution b x)"
proof (induction bs arbitrary: l)
  case Nil
  then show ?case by simp
next
  case (Cons b bs)
  show ?case
  proof (cases "upper b")
    case Infty
    with Cons.prems have "bs = []" by simp
    with Infty show ?thesis
      by (simp add: contribution_max_infty del: contribution.simps)
         (intro continuous_intros)
  next
    case (Fin u)
    with Cons.prems have lu: "lower b < u" and ch: "chain u bs" by simp_all
    have "continuous_on UNIV (contribution b)"
      unfolding contribution_max[OF lu Fin] by (intro continuous_intros)
    moreover note Cons.IH[OF ch]
    ultimately have "continuous_on UNIV (\<lambda>x. contribution b x + (\<Sum>b\<leftarrow>bs. contribution b x))"
      by (intro continuous_on_add) (simp_all only: )
    then show ?thesis by (simp del: contribution.simps)
  qed
qed

lemma valid_TAX_BRACKETS: "valid_table TAX_BRACKETS"
  by (simp add: valid_table_def TAX_BRACKETS_def bracket_def)

lemma us_loop_valid_sum:
  "valid_table T \<Longrightarrow> us_bracket_loop T x 0 = (\<Sum>b\<leftarrow>T. contribution b x)"
proof (cases "0 \<le> x")
  case True
  assume "valid_table T"
  then have "chain 0 T" by (simp add: valid_table_def)
  from us_loop_sum[OF this True, of 0] show ?thesis by simp
next
  case False
  assume "valid_table T"
  then have ch: "chain 0 T" by (simp add: valid_table_def)
  from False have "x \<le> 0" by simp
  with contribution_zero[OF ch this] show ?thesis
    by (simp add: us_loop_nonpos del: contribution.simps)
qed

lemma cn_loop_valid_sum: "cn_bracket_loop T x 0 = (\<Sum>b\<leftarrow>T. contribution b x)"
  using cn_loop_sum[of T x 0] by simp

section \<open>The two loops compute the same liability\<close>

text \<open>
  C6. The forward accumulation of \<^verbatim>\<open>cn_tax.calculate_tax\<close> (contribution
  \<open>min (taxable - lower) (upper - lower) * rate\<close> under the guard \<open>taxable > lower\<close>) and
  the remaining-income subtraction of \<^verbatim>\<open>us_tax.calculate_federal_tax\<close> (slices
  \<open>min remaining (upper - lower)\<close> until nothing remains) give the same total liability
  for every table that satisfies the BracketTable invariant and every taxable amount
  \<open>x \<ge> 0\<close>.
\<close>

theorem bracket_loops_agree:
  "valid_table T \<Longrightarrow> 0 \<le> x \<Longrightarrow> cn_bracket_loop T x 0 = us_bracket_loop T x 0"
  by (simp only: us_loop_valid_sum cn_loop_valid_sum)

theorem bracket_loops_agree_witness:
  "valid_table TAX_BRACKETS \<and> (0::real) \<le> 126000 \<and>
   cn_bracket_loop TAX_BRACKETS 126000 0 = us_bracket_loop TAX_BRACKETS 126000 0 \<and>
   us_bracket_loop TAX_BRACKETS 126000 0 = 10080"
proof -
  have v: "valid_table TAX_BRACKETS"
    by (simp add: valid_table_def TAX_BRACKETS_def bracket_def)
  have p: "(0::real) \<le> 126000" by simp
  have e: "us_bracket_loop TAX_BRACKETS 126000 0 = 10080"
    by (simp add: TAX_BRACKETS_def bracket_def Let_def)
  from bracket_loops_agree[OF v p] v p e show ?thesis by simp
qed

lemma chain_suffix: "chain l (pre @ b # post) \<Longrightarrow> chain (lower b) (b # post)"
  by (induction pre arbitrary: l) (fastforce split: bound.splits)+

lemma chain_lower_le_upper: "chain l (pre @ b # post) \<Longrightarrow> le_bound (lower b) (upper b)"
  using chain_suffix[of l pre b post] by (cases "upper b") auto

section \<open>Liability at a bracket boundary\<close>

text \<open>
  C1. For every valid table and every bracket \<open>b\<close> of it, at the taxable amount
  \<open>lower b\<close> (a bracket boundary) the liability of both loops is the sum of the full
  contributions of the brackets below \<open>b\<close>: the bracket that starts at the boundary and
  those above it add nothing, and no bracket below is skipped.
\<close>

theorem boundary_liability:
  "valid_table (pre @ b # post) \<Longrightarrow>
     cn_bracket_loop (pre @ b # post) (lower b) 0 = (\<Sum>c\<leftarrow>pre. full_contribution c)
   \<and> us_bracket_loop (pre @ b # post) (lower b) 0 = (\<Sum>c\<leftarrow>pre. full_contribution c)"
proof -
  assume v: "valid_table (pre @ b # post)"
  then have ch: "chain 0 (pre @ b # post)" by (simp add: valid_table_def)
  have ub: "le_bound (lower b) (upper b)" using ch by (rule chain_lower_le_upper)
  from piece_sum[OF ch _ ub]
  have "(\<Sum>c\<leftarrow>pre @ b # post. contribution c (lower b)) = (\<Sum>c\<leftarrow>pre. full_contribution c)"
    by simp
  then show ?thesis
    by (simp only: us_loop_valid_sum[OF v] cn_loop_valid_sum)
qed

theorem boundary_liability_witness:
  "valid_table ([bracket 0 (Fin 36000) 0.03] @ bracket 36000 (Fin 144000) 0.10 #
      [bracket 144000 Infty 0.20])
   \<and> cn_bracket_loop ([bracket 0 (Fin 36000) 0.03] @ bracket 36000 (Fin 144000) 0.10 #
      [bracket 144000 Infty 0.20]) 36000 0 = 36000 * 0.03
   \<and> us_bracket_loop ([bracket 0 (Fin 36000) 0.03] @ bracket 36000 (Fin 144000) 0.10 #
      [bracket 144000 Infty 0.20]) 36000 0 = 36000 * 0.03"
proof -
  have v: "valid_table ([bracket 0 (Fin 36000) 0.03] @ bracket 36000 (Fin 144000) 0.10 #
      [bracket 144000 Infty 0.20])"
    by (simp add: valid_table_def bracket_def)
  from boundary_liability[OF v] v show ?thesis by (simp add: bracket_def)
qed

section \<open>Shape of the liability function\<close>

text \<open>
  C2. For every valid table, the liability computed by either loop is monotonically
  non-decreasing in the taxable amount on \<open>x \<ge> 0\<close>, is continuous there (no jumps),
  is linear with slope \<open>rate b\<close> on the range of every bracket \<open>b\<close> (piecewise
  linear), and is 0 at the amount 0.
\<close>

theorem liability_monotone_continuous:
  "valid_table T \<Longrightarrow>
     (\<forall>x y. 0 \<le> x \<and> x \<le> y \<longrightarrow> cn_bracket_loop T x 0 \<le> cn_bracket_loop T y 0)
   \<and> (\<forall>x y. 0 \<le> x \<and> x \<le> y \<longrightarrow> us_bracket_loop T x 0 \<le> us_bracket_loop T y 0)
   \<and> continuous_on {0..} (\<lambda>x. cn_bracket_loop T x 0)
   \<and> continuous_on {0..} (\<lambda>x. us_bracket_loop T x 0)
   \<and> (\<forall>b \<in> set T. \<forall>x. lower b \<le> x \<and> le_bound x (upper b) \<longrightarrow>
         cn_bracket_loop T x 0 = cn_bracket_loop T (lower b) 0 + (x - lower b) * rate b)
   \<and> (\<forall>b \<in> set T. \<forall>x. lower b \<le> x \<and> le_bound x (upper b) \<longrightarrow>
         us_bracket_loop T x 0 = us_bracket_loop T (lower b) 0 + (x - lower b) * rate b)
   \<and> cn_bracket_loop T 0 0 = 0
   \<and> us_bracket_loop T 0 0 = 0"
proof -
  assume v: "valid_table T"
  then have ch: "chain 0 T" by (simp add: valid_table_def)
  let ?L = "\<lambda>x. \<Sum>b\<leftarrow>T. contribution b x"
  have cn: "\<And>x. cn_bracket_loop T x 0 = ?L x" by (rule cn_loop_valid_sum)
  have us: "\<And>x. us_bracket_loop T x 0 = ?L x" by (rule us_loop_valid_sum[OF v])
  have mono: "\<forall>x y. 0 \<le> x \<and> x \<le> y \<longrightarrow> ?L x \<le> ?L y"
    using contribution_mono[OF ch] by blast
  have "continuous_on UNIV ?L" by (rule contribution_continuous[OF ch])
  then have cont: "continuous_on {0..} ?L" by (rule continuous_on_subset) simp
  have lin: "\<forall>b \<in> set T. \<forall>x. lower b \<le> x \<and> le_bound x (upper b) \<longrightarrow>
         ?L x = ?L (lower b) + (x - lower b) * rate b"
  proof (intro ballI allI impI)
    fix b x
    assume b: "b \<in> set T" and x: "lower b \<le> x \<and> le_bound x (upper b)"
    from b obtain pre post where T: "T = pre @ b # post" by (auto dest: split_list)
    from ch T have ch': "chain 0 (pre @ b # post)" by simp
    have "?L x = (\<Sum>c\<leftarrow>pre. full_contribution c) + (x - lower b) * rate b"
      unfolding T using piece_sum[OF ch'] x by blast
    moreover have "?L (lower b) = (\<Sum>c\<leftarrow>pre. full_contribution c)"
      unfolding T using piece_sum[OF ch' _ chain_lower_le_upper[OF ch']] by simp
    ultimately show "?L x = ?L (lower b) + (x - lower b) * rate b" by simp
  qed
  have zero: "?L 0 = 0" using contribution_zero[OF ch, of 0] by simp
  show ?thesis
    unfolding cn us using mono cont lin zero by blast
qed

theorem liability_monotone_continuous_witness:
  "valid_table TAX_BRACKETS
   \<and> cn_bracket_loop TAX_BRACKETS 36000 0 \<le> cn_bracket_loop TAX_BRACKETS 126000 0
   \<and> us_bracket_loop TAX_BRACKETS 36000 0 \<le> us_bracket_loop TAX_BRACKETS 126000 0
   \<and> continuous_on {0..} (\<lambda>x. cn_bracket_loop TAX_BRACKETS x 0)
   \<and> continuous_on {0..} (\<lambda>x. us_bracket_loop TAX_BRACKETS x 0)
   \<and> cn_bracket_loop TAX_BRACKETS 126000 0 =
       cn_bracket_loop TAX_BRACKETS 36000 0 + (126000 - 36000) * 0.10
   \<and> us_bracket_loop TAX_BRACKETS 126000 0 =
       us_bracket_loop TAX_BRACKETS 36000 0 + (126000 - 36000) * 0.10
   \<and> cn_bracket_loop TAX_BRACKETS 0 0 = 0
   \<and> us_bracket_loop TAX_BRACKETS 0 0 = 0"
proof -
  have v: "valid_table TAX_BRACKETS"
    by (simp add: valid_table_def TAX_BRACKETS_def bracket_def)
  note t = liability_monotone_continuous[OF v]
  have o: "(0::real) \<le> 36000 \<and> (36000::real) \<le> 126000" by simp
  let ?b = "bracket 36000 (Fin 144000) 0.10"
  have b: "?b \<in> set TAX_BRACKETS" by (simp add: TAX_BRACKETS_def)
  have x: "lower ?b \<le> 126000 \<and> le_bound 126000 (upper ?b)" by (simp add: bracket_def)
  have lb: "lower ?b = 36000" "rate ?b = 0.10" by (simp_all add: bracket_def)
  from t o have m1: "cn_bracket_loop TAX_BRACKETS 36000 0 \<le> cn_bracket_loop TAX_BRACKETS 126000 0"
    by blast
  from t o have m2: "us_bracket_loop TAX_BRACKETS 36000 0 \<le> us_bracket_loop TAX_BRACKETS 126000 0"
    by blast
  from t b x have "cn_bracket_loop TAX_BRACKETS 126000 0 =
       cn_bracket_loop TAX_BRACKETS (lower ?b) 0 + (126000 - lower ?b) * rate ?b"
    by blast
  then have l1: "cn_bracket_loop TAX_BRACKETS 126000 0 =
       cn_bracket_loop TAX_BRACKETS 36000 0 + (126000 - 36000) * 0.10"
    by (simp only: lb)
  from t b x have "us_bracket_loop TAX_BRACKETS 126000 0 =
       us_bracket_loop TAX_BRACKETS (lower ?b) 0 + (126000 - lower ?b) * rate ?b"
    by blast
  then have l2: "us_bracket_loop TAX_BRACKETS 126000 0 =
       us_bracket_loop TAX_BRACKETS 36000 0 + (126000 - 36000) * 0.10"
    by (simp only: lb)
  from t v m1 m2 l1 l2 show ?thesis by blast
qed

section \<open>The marginal-rate lookup at a bracket boundary\<close>

text \<open>
  The lookup tests \<^verbatim>\<open>lower <= income <= upper\<close> and stops at the first bracket that
  passes, so an upper bound is inclusive: an income with \<open>lower b < income \<le> upper b\<close>
  gets \<open>rate b\<close>, and an income on the boundary between two brackets gets the rate of
  the lower one.
\<close>

lemma rate_lookup_upper_inclusive:
  "chain l (pre @ b # post) \<Longrightarrow> lower b < x \<Longrightarrow> le_bound x (upper b) \<Longrightarrow>
   bracket_rate_lookup (pre @ b # post) x = rate b"
proof (induction pre arbitrary: l)
  case Nil
  then show ?case by simp
next
  case (Cons c pre)
  from Cons.prems(1) obtain u where u: "upper c = Fin u" "chain u (pre @ b # post)"
    by (auto split: bound.splits)
  from chain_lower_ge[OF u(2)] Cons.prems(2) have "u < x" by simp
  with u Cons.IH[OF u(2) Cons.prems(2,3)] show ?case by simp
qed

lemma rate_lookup_at_boundary:
  "valid_table (pre @ b # c # post) \<Longrightarrow>
   upper b = Fin (lower c) \<and> bracket_rate_lookup (pre @ b # c # post) (lower c) = rate b"
proof -
  assume "valid_table (pre @ b # c # post)"
  then have ch: "chain 0 (pre @ b # c # post)" by (simp add: valid_table_def)
  from chain_suffix[OF ch] have ub: "upper b = Fin (lower c)" "lower b < lower c"
    by (auto split: bound.splits)
  then have "le_bound (lower c) (upper b)" by simp
  from rate_lookup_upper_inclusive[OF ch ub(2) this] ub(1) show ?thesis by simp
qed

text \<open>
  C3. The claim is that an income exactly on a bracket boundary gets the HIGHER bracket's
  rate. Evaluated on the code: the monthly salary 3000 is the annual income 36000, the
  upper bound of the first bracket of \<^verbatim>\<open>TAX_BRACKETS\<close> (rate 0.03) and the lower bound
  of the second (rate 0.10), and \<^verbatim>\<open>cn_tax.calculate_marginal_rates\<close> returns 0.03, not
  0.10; the income 11600 is the boundary between the 10% and the 12% federal brackets of a
  single filer, and between no two California brackets, and
  \<^verbatim>\<open>us_tax.calculate_marginal_rates\<close> returns the federal rate 0.10.
\<close>

theorem marginal_rate_at_boundary_is_lower:
  "upper (TAX_BRACKETS ! 0) = Fin (3000 * 12) \<and> lower (TAX_BRACKETS ! 1) = 3000 * 12
   \<and> rate (TAX_BRACKETS ! 0) = 0.03 \<and> rate (TAX_BRACKETS ! 1) = 0.10
   \<and> tax_rate (cn_calculate_marginal_rates 3000) = 0.03
   \<and> tax_rate (cn_calculate_marginal_rates 3000) \<noteq> 0.10
   \<and> us_calculate_marginal_rates 11600 ''single'' =
       Inr \<lparr>federal = 0.10, california = 0.02, fica_rate = 0.0765, sdi_rate = 0.009,
            us_total_rate = 0.2055\<rparr>"
  by (simp add: cn_calculate_marginal_rates_def us_calculate_marginal_rates_def Let_def
      TAX_BRACKETS_def bracket_def bind_err_def lookup_status_def us_tables us_constants
      cn_constants)

lemma le_bound_trans: "y \<le> x \<Longrightarrow> le_bound x u \<Longrightarrow> le_bound y u"
  by (cases u) auto

lemma loops_slice:
  assumes v: "valid_table (pre @ b # post)"
    and x: "lower b \<le> x" "le_bound x (upper b)" and y: "lower b \<le> y" "y \<le> x"
  shows "cn_bracket_loop (pre @ b # post) x 0 - cn_bracket_loop (pre @ b # post) y 0
           = (x - y) * rate b"
    and "us_bracket_loop (pre @ b # post) x 0 - us_bracket_loop (pre @ b # post) y 0
           = (x - y) * rate b"
proof -
  from v have ch: "chain 0 (pre @ b # post)" by (simp add: valid_table_def)
  let ?L = "\<lambda>z. \<Sum>c\<leftarrow>pre @ b # post. contribution c z"
  have lx: "?L x = (\<Sum>c\<leftarrow>pre. full_contribution c) + (x - lower b) * rate b"
    using piece_sum[OF ch x] .
  have ly: "?L y = (\<Sum>c\<leftarrow>pre. full_contribution c) + (y - lower b) * rate b"
    using piece_sum[OF ch y(1) le_bound_trans[OF y(2) x(2)]] .
  have d: "?L x - ?L y = (x - y) * rate b"
    unfolding lx ly by (simp add: algebra_simps)
  show "cn_bracket_loop (pre @ b # post) x 0 - cn_bracket_loop (pre @ b # post) y 0
           = (x - y) * rate b"
    unfolding cn_loop_valid_sum using d .
  show "us_bracket_loop (pre @ b # post) x 0 - us_bracket_loop (pre @ b # post) y 0
           = (x - y) * rate b"
    unfolding us_loop_valid_sum[OF v] using d .
qed

text \<open>
  C3, as amended. For every valid bracket table, an income with
  \<open>lower b < income \<le> upper b\<close> gets the rate of the bracket \<open>b\<close>: both bounds are
  tested inclusively and the first match wins, so upper bounds are inclusive and lower
  bounds exclusive. An income exactly on the boundary between two brackets therefore gets
  the LOWER bracket's rate, and the income 0 gets the first bracket's rate. On the same
  table and the same amount \<open>x\<close> this agrees with both liability loops: for
  \<open>lower b \<le> y \<le> x\<close> the liability grows from \<open>y\<close> to \<open>x\<close> by \<open>x - y\<close> times the
  rate the lookup returns at \<open>x\<close>, and the liability at the boundary is the liability at
  \<open>lower b\<close> plus the width of \<open>b\<close> times the rate looked up at the boundary.
  \<^verbatim>\<open>cn_tax.calculate_marginal_rates\<close> applies this lookup to \<^verbatim>\<open>TAX_BRACKETS\<close> at
  twelve times the monthly salary, and \<^verbatim>\<open>us_tax.calculate_marginal_rates\<close> applies it
  to the federal and the California table of the filing status at its income argument.
\<close>

theorem marginal_rate_upper_inclusive:
  "valid_table (pre @ b # post) \<Longrightarrow>
     (\<forall>x. lower b < x \<and> le_bound x (upper b) \<longrightarrow>
        bracket_rate_lookup (pre @ b # post) x = rate b)
   \<and> (\<forall>c post'. post = c # post' \<longrightarrow>
        upper b = Fin (lower c) \<and> bracket_rate_lookup (pre @ b # post) (lower c) = rate b)
   \<and> (pre = [] \<longrightarrow> bracket_rate_lookup (pre @ b # post) 0 = rate b)
   \<and> (\<forall>x y. lower b < x \<and> le_bound x (upper b) \<and> lower b \<le> y \<and> y \<le> x \<longrightarrow>
        cn_bracket_loop (pre @ b # post) x 0 - cn_bracket_loop (pre @ b # post) y 0
          = (x - y) * bracket_rate_lookup (pre @ b # post) x
      \<and> us_bracket_loop (pre @ b # post) x 0 - us_bracket_loop (pre @ b # post) y 0
          = (x - y) * bracket_rate_lookup (pre @ b # post) x)
   \<and> (\<forall>c post'. post = c # post' \<longrightarrow>
        cn_bracket_loop (pre @ b # post) (lower c) 0
          = cn_bracket_loop (pre @ b # post) (lower b) 0
            + (lower c - lower b) * bracket_rate_lookup (pre @ b # post) (lower c)
      \<and> us_bracket_loop (pre @ b # post) (lower c) 0
          = us_bracket_loop (pre @ b # post) (lower b) 0
            + (lower c - lower b) * bracket_rate_lookup (pre @ b # post) (lower c))
   \<and> tax_rate (cn_calculate_marginal_rates m) = bracket_rate_lookup TAX_BRACKETS (m * 12)
   \<and> (\<forall>F C. lookup_status FEDERAL_BRACKETS s = Inr F \<and> lookup_status CA_BRACKETS s = Inr C \<longrightarrow>
        (\<exists>r. us_calculate_marginal_rates income s = Inr r
              \<and> federal r = bracket_rate_lookup F income
              \<and> california r = bracket_rate_lookup C income))"
proof -
  assume v: "valid_table (pre @ b # post)"
  then have ch: "chain 0 (pre @ b # post)" by (simp add: valid_table_def)
  let ?T = "pre @ b # post"
  have 1: "\<forall>x. lower b < x \<and> le_bound x (upper b) \<longrightarrow> bracket_rate_lookup ?T x = rate b"
    using rate_lookup_upper_inclusive[OF ch] by blast
  have 2: "\<forall>c post'. post = c # post' \<longrightarrow>
        upper b = Fin (lower c) \<and> bracket_rate_lookup ?T (lower c) = rate b"
    using rate_lookup_at_boundary v by blast
  have 3: "pre = [] \<longrightarrow> bracket_rate_lookup ?T 0 = rate b"
    using ch by (auto split: bound.splits)
  have 4: "\<forall>x y. lower b < x \<and> le_bound x (upper b) \<and> lower b \<le> y \<and> y \<le> x \<longrightarrow>
        cn_bracket_loop ?T x 0 - cn_bracket_loop ?T y 0 = (x - y) * bracket_rate_lookup ?T x
      \<and> us_bracket_loop ?T x 0 - us_bracket_loop ?T y 0 = (x - y) * bracket_rate_lookup ?T x"
  proof (intro allI impI)
    fix x y
    assume a: "lower b < x \<and> le_bound x (upper b) \<and> lower b \<le> y \<and> y \<le> x"
    then have r: "bracket_rate_lookup ?T x = rate b" using 1 by blast
    from a have x: "lower b \<le> x" "le_bound x (upper b)" and y: "lower b \<le> y" "y \<le> x"
      by simp_all
    from loops_slice[OF v x y] show
      "cn_bracket_loop ?T x 0 - cn_bracket_loop ?T y 0 = (x - y) * bracket_rate_lookup ?T x
      \<and> us_bracket_loop ?T x 0 - us_bracket_loop ?T y 0 = (x - y) * bracket_rate_lookup ?T x"
      unfolding r by blast
  qed
  have 5: "\<forall>c post'. post = c # post' \<longrightarrow>
        cn_bracket_loop ?T (lower c) 0
          = cn_bracket_loop ?T (lower b) 0 + (lower c - lower b) * bracket_rate_lookup ?T (lower c)
      \<and> us_bracket_loop ?T (lower c) 0
          = us_bracket_loop ?T (lower b) 0 + (lower c - lower b) * bracket_rate_lookup ?T (lower c)"
  proof (intro allI impI)
    fix c post'
    assume p: "post = c # post'"
    with 2 have u: "upper b = Fin (lower c)" by blast
    from chain_suffix[OF ch] p u have lt: "lower b < lower c" by simp
    from u have "le_bound (lower c) (upper b)" by simp
    with 4 lt have
      "cn_bracket_loop ?T (lower c) 0 - cn_bracket_loop ?T (lower b) 0
         = (lower c - lower b) * bracket_rate_lookup ?T (lower c)
       \<and> us_bracket_loop ?T (lower c) 0 - us_bracket_loop ?T (lower b) 0
         = (lower c - lower b) * bracket_rate_lookup ?T (lower c)"
      by (meson order_refl less_imp_le)
    then show "cn_bracket_loop ?T (lower c) 0
          = cn_bracket_loop ?T (lower b) 0 + (lower c - lower b) * bracket_rate_lookup ?T (lower c)
      \<and> us_bracket_loop ?T (lower c) 0
          = us_bracket_loop ?T (lower b) 0 + (lower c - lower b) * bracket_rate_lookup ?T (lower c)"
      by (simp add: algebra_simps)
  qed
  have 6: "tax_rate (cn_calculate_marginal_rates m) = bracket_rate_lookup TAX_BRACKETS (m * 12)"
    by (simp add: cn_calculate_marginal_rates_def Let_def)
  have 7: "\<forall>F C. lookup_status FEDERAL_BRACKETS s = Inr F \<and> lookup_status CA_BRACKETS s = Inr C \<longrightarrow>
        (\<exists>r. us_calculate_marginal_rates income s = Inr r
              \<and> federal r = bracket_rate_lookup F income
              \<and> california r = bracket_rate_lookup C income)"
    by (simp add: us_calculate_marginal_rates_def bind_err_def Let_def)
  show ?thesis by (intro conjI) (fact 1 2 3 4 5 6 7)+
qed

theorem marginal_rate_upper_inclusive_witness:
  "valid_table ([bracket 0 (Fin 11600) 0.10] @ bracket 11600 (Fin 47150) 0.12 #
      [bracket 47150 Infty 0.22])
   \<and> bracket_rate_lookup ([bracket 0 (Fin 11600) 0.10] @ bracket 11600 (Fin 47150) 0.12 #
        [bracket 47150 Infty 0.22]) 47150 = 0.12
   \<and> bracket_rate_lookup ([bracket 0 (Fin 11600) 0.10] @ bracket 11600 (Fin 47150) 0.12 #
        [bracket 47150 Infty 0.22]) 30000 = 0.12
   \<and> cn_bracket_loop ([bracket 0 (Fin 11600) 0.10] @ bracket 11600 (Fin 47150) 0.12 #
        [bracket 47150 Infty 0.22]) 47150 0
      - cn_bracket_loop ([bracket 0 (Fin 11600) 0.10] @ bracket 11600 (Fin 47150) 0.12 #
        [bracket 47150 Infty 0.22]) 30000 0
      = (47150 - 30000) * bracket_rate_lookup ([bracket 0 (Fin 11600) 0.10] @
          bracket 11600 (Fin 47150) 0.12 # [bracket 47150 Infty 0.22]) 47150
   \<and> us_bracket_loop ([bracket 0 (Fin 11600) 0.10] @ bracket 11600 (Fin 47150) 0.12 #
        [bracket 47150 Infty 0.22]) 47150 0
      - us_bracket_loop ([bracket 0 (Fin 11600) 0.10] @ bracket 11600 (Fin 47150) 0.12 #
        [bracket 47150 Infty 0.22]) 30000 0
      = (47150 - 30000) * bracket_rate_lookup ([bracket 0 (Fin 11600) 0.10] @
          bracket 11600 (Fin 47150) 0.12 # [bracket 47150 Infty 0.22]) 47150"
proof -
  let ?b = "bracket 11600 (Fin 47150) 0.12"
  let ?c = "bracket 47150 Infty 0.22"
  let ?T = "[bracket 0 (Fin 11600) 0.10] @ ?b # [?c]"
  have v: "valid_table ?T" by (simp add: valid_table_def bracket_def)
  note t = marginal_rate_upper_inclusive[OF v]
  have x: "lower ?b < 30000 \<and> le_bound 30000 (upper ?b)" by (simp add: bracket_def)
  have xy: "lower ?b < 47150 \<and> le_bound 47150 (upper ?b) \<and> lower ?b \<le> 30000
            \<and> (30000::real) \<le> 47150" by (simp add: bracket_def)
  have f: "lower ?c = 47150" "rate ?b = 0.12" by (simp_all add: bracket_def)
  from t have "bracket_rate_lookup ?T (lower ?c) = rate ?b" by blast
  then have 1: "bracket_rate_lookup ?T 47150 = 0.12" by (simp only: f)
  from t x have "bracket_rate_lookup ?T 30000 = rate ?b" by blast
  then have 2: "bracket_rate_lookup ?T 30000 = 0.12" by (simp only: f)
  from t xy have 3: "cn_bracket_loop ?T 47150 0 - cn_bracket_loop ?T 30000 0
      = (47150 - 30000) * bracket_rate_lookup ?T 47150" by blast
  from t xy have 4: "us_bracket_loop ?T 47150 0 - us_bracket_loop ?T 30000 0
      = (47150 - 30000) * bracket_rate_lookup ?T 47150" by blast
  show ?thesis by (intro conjI) (fact v 1 2 3 4)+
qed

section \<open>Negative taxable base\<close>

text \<open>
  C4. When the deductions exceed the income the progressive liability is exactly zero:
  \<^verbatim>\<open>cn_tax.calculate_tax\<close> returns the tax 0 whenever its taxable income is negative,
  and \<^verbatim>\<open>calculate_federal_tax\<close> and \<^verbatim>\<open>calculate_ca_state_tax\<close> return 0 whenever
  the standard deduction of the filing status exceeds the income (plus capital gains, for
  California).
\<close>

theorem negative_taxable_base_zero_tax:
  "(taxable_income (calculate_tax m d) < 0 \<longrightarrow> tax (calculate_tax m d) = 0)
   \<and> (\<forall>sd. lookup_status STANDARD_DEDUCTION s = Inr sd \<and> income < sd \<longrightarrow>
         calculate_federal_tax income s = Inr 0)
   \<and> (\<forall>sd. lookup_status CA_STANDARD_DEDUCTION s = Inr sd \<and> income + cg < sd \<longrightarrow>
         calculate_ca_state_tax income cg s = Inr 0)"
proof (intro conjI allI impI)
  assume "taxable_income (calculate_tax m d) < 0"
  then show "tax (calculate_tax m d) = 0"
    by (simp add: calculate_tax_def Let_def)
next
  fix sd
  assume a: "lookup_status STANDARD_DEDUCTION s = Inr sd \<and> income < sd"
  then have "s = ''single'' \<or> s = ''married''"
    by (auto simp: lookup_status_def STANDARD_DEDUCTION_def split: if_splits)
  with a show "calculate_federal_tax income s = Inr 0"
    by (auto simp: calculate_federal_tax_def bind_err_def lookup_status_def
        STANDARD_DEDUCTION_def FEDERAL_BRACKETS_def Let_def max_def us_loop_nonpos)
next
  fix sd
  assume a: "lookup_status CA_STANDARD_DEDUCTION s = Inr sd \<and> income + cg < sd"
  then have "s = ''single'' \<or> s = ''married''"
    by (auto simp: lookup_status_def CA_STANDARD_DEDUCTION_def split: if_splits)
  with a show "calculate_ca_state_tax income cg s = Inr 0"
    by (auto simp: calculate_ca_state_tax_def bind_err_def lookup_status_def
        CA_STANDARD_DEDUCTION_def CA_BRACKETS_def Let_def max_def us_loop_nonpos)
qed

theorem negative_taxable_base_zero_tax_witness:
  "taxable_income (calculate_tax 3000 no_deductions) < 0
   \<and> tax (calculate_tax 3000 no_deductions) = 0
   \<and> lookup_status STANDARD_DEDUCTION ''single'' = Inr 14600
   \<and> calculate_federal_tax 10000 ''single'' = Inr 0
   \<and> lookup_status CA_STANDARD_DEDUCTION ''married'' = Inr 10726
   \<and> calculate_ca_state_tax 9000 1000 ''married'' = Inr 0"
proof -
  have a: "taxable_income (calculate_tax 3000 no_deductions) < 0"
    by (simp add: calculate_tax_def calculate_social_insurance_def no_deductions_def Let_def
        cn_constants)
  have b: "lookup_status STANDARD_DEDUCTION ''single'' = Inr 14600 \<and> (10000::real) < 14600"
    by (simp add: lookup_status_def STANDARD_DEDUCTION_def)
  have c: "lookup_status CA_STANDARD_DEDUCTION ''married'' = Inr 10726
             \<and> (9000::real) + 1000 < 10726"
    by (simp add: lookup_status_def CA_STANDARD_DEDUCTION_def)
  note t1 = negative_taxable_base_zero_tax[of 3000 no_deductions "''single''" 10000 0]
  note t2 = negative_taxable_base_zero_tax[of 3000 no_deductions "''married''" 9000 1000]
  from t1 a have "tax (calculate_tax 3000 no_deductions) = 0" by blast
  moreover from t1 b have "calculate_federal_tax 10000 ''single'' = Inr 0" by blast
  moreover from t2 c have "calculate_ca_state_tax 9000 1000 ''married'' = Inr 0" by blast
  ultimately show ?thesis using a b c by blast
qed

section \<open>Capped-base levies\<close>



section \<open>The scenario of a monthly salary of 20000 (cn_tax.py)\<close>

text \<open>
  C8. For the monthly salary 20000, the threshold 5000 and no special deductions,
  \<^verbatim>\<open>calculate_tax\<close> gives the taxable income \<open>20000 - 5000\<close> minus the personal
  social-insurance total of \<^verbatim>\<open>calculate_social_insurance(20000)\<close> (4500, so 10500), and
  the monthly tax is the liability of the annual bracket table on twelve times the taxable
  income, divided by 12: \<open>(36000 * 0.03 + (126000 - 36000) * 0.10) / 12 = 840\<close>.
\<close>

theorem cn_scenario_20000:
  "taxable_income (calculate_tax 20000 no_deductions) =
     20000 - 5000 - personal_total (personal (calculate_social_insurance 20000))
   \<and> personal_total (personal (calculate_social_insurance 20000)) = 4500
   \<and> taxable_income (calculate_tax 20000 no_deductions) = 10500
   \<and> tax (calculate_tax 20000 no_deductions) =
       cn_bracket_loop TAX_BRACKETS (taxable_income (calculate_tax 20000 no_deductions) * 12) 0 / 12
   \<and> tax (calculate_tax 20000 no_deductions) = (36000 * 0.03 + (10500 * 12 - 36000) * 0.10) / 12
   \<and> tax (calculate_tax 20000 no_deductions) = 840"
  by (simp add: calculate_tax_def calculate_social_insurance_def no_deductions_def Let_def
      cn_constants TAX_BRACKETS_def bracket_def)

section \<open>Negative amounts\<close>

lemma rate_lookup_below: "chain l T \<Longrightarrow> x < l \<Longrightarrow> bracket_rate_lookup T x = 0"
  by (induction T arbitrary: l) (auto split: bound.splits)

lemma valid_FEDERAL_BRACKETS:
  "lookup_status FEDERAL_BRACKETS s = Inr T \<Longrightarrow> valid_table T"
  by (auto simp: lookup_status_def FEDERAL_BRACKETS_def valid_table_def bracket_def
      split: if_splits)

lemma valid_CA_BRACKETS:
  "lookup_status CA_BRACKETS s = Inr T \<Longrightarrow> valid_table T"
  by (auto simp: lookup_status_def CA_BRACKETS_def valid_table_def bracket_def
      split: if_splits)

lemma known_status_lookup:
  "s = ''single'' \<or> s = ''married'' \<Longrightarrow>
   (\<exists>F. lookup_status FEDERAL_BRACKETS s = Inr F) \<and> (\<exists>C. lookup_status CA_BRACKETS s = Inr C)"
  by (auto simp: lookup_status_def FEDERAL_BRACKETS_def CA_BRACKETS_def)

lemma us_marginal_negative:
  assumes "income < 0" and "s = ''single'' \<or> s = ''married''"
  shows "\<exists>r. us_calculate_marginal_rates income s = Inr r \<and> federal r = 0 \<and> california r = 0"
proof -
  from known_status_lookup[OF assms(2)] obtain F C
    where F: "lookup_status FEDERAL_BRACKETS s = Inr F"
      and C: "lookup_status CA_BRACKETS s = Inr C" by blast
  have zF: "bracket_rate_lookup F income = 0"
    using valid_FEDERAL_BRACKETS[OF F] assms(1) by (simp add: valid_table_def rate_lookup_below)
  have zC: "bracket_rate_lookup C income = 0"
    using valid_CA_BRACKETS[OF C] assms(1) by (simp add: valid_table_def rate_lookup_below)
  show ?thesis
    by (simp add: us_calculate_marginal_rates_def bind_err_def F C Let_def zF zC)
qed

text \<open>
  C7. The claim is that a negative taxable amount, income or deduction makes the core fail
  with an \<^verbatim>\<open>InvalidInput\<close> error instead of returning a number. Evaluated on the code:
  at the income \<open>-1\<close> the federal and the California tax are the number 0 and the
  marginal-rate lookups return the bracket rate 0; at the monthly salary \<open>-1\<close>
  \<^verbatim>\<open>cn_tax.calculate_tax\<close> returns the tax 0; and the deduction \<open>-1000\<close> is accepted
  and raises the taxable income of the salary 20000 from 10500 to 11500 and the tax from
  840 to 940.
\<close>

theorem negative_input_returns_number:
  "calculate_federal_tax (-1) ''single'' = Inr 0
   \<and> calculate_ca_state_tax (-1) 0 ''single'' = Inr 0
   \<and> us_calculate_marginal_rates (-1) ''single'' =
       Inr \<lparr>federal = 0, california = 0, fica_rate = 0.0765, sdi_rate = 0.009,
            us_total_rate = 0.0855\<rparr>
   \<and> tax (calculate_tax (-1) no_deductions) = 0
   \<and> tax_rate (cn_calculate_marginal_rates (-1)) = 0
   \<and> taxable_income (calculate_tax 20000 (no_deductions\<lparr>housing_rent := -1000\<rparr>)) = 11500
   \<and> tax (calculate_tax 20000 (no_deductions\<lparr>housing_rent := -1000\<rparr>)) = 940"
  by (simp add: calculate_federal_tax_def calculate_ca_state_tax_def
      us_calculate_marginal_rates_def calculate_tax_def cn_calculate_marginal_rates_def
      calculate_social_insurance_def no_deductions_def bind_err_def lookup_status_def
      Let_def us_tables us_constants cn_constants TAX_BRACKETS_def bracket_def)

text \<open>
  C7, as amended. A negative taxable amount, income or deduction gives a numeric result,
  not a failure. For a taxable amount \<open>x \<le> 0\<close> both bracket loops return the liability
  0 on every valid table; for a negative income (plus capital gains, for California) the
  federal and the California tax are 0 for both filing statuses, and the marginal-rate
  lookups return the bracket rate 0 (no bracket matches); \<^verbatim>\<open>cn_tax.calculate_tax\<close>
  returns the tax 0 whenever its taxable income is not positive; and the deductions are
  subtracted as they are, whatever their sign: the taxable income is the salary minus
  5000, the personal insurance total and the sum of the deductions, and the tax is the
  bracket liability on twelve times that amount, divided by 12, when it is positive.
\<close>

theorem negative_inputs_accepted:
  "(x \<le> 0 \<longrightarrow> us_bracket_loop T x 0 = 0)
   \<and> (x \<le> 0 \<and> valid_table T \<longrightarrow> cn_bracket_loop T x 0 = 0)
   \<and> (x < 0 \<and> valid_table T \<longrightarrow> bracket_rate_lookup T x = 0)
   \<and> (income < 0 \<longrightarrow> calculate_federal_tax income ''single'' = Inr 0
                     \<and> calculate_federal_tax income ''married'' = Inr 0)
   \<and> (income + cg < 0 \<longrightarrow> calculate_ca_state_tax income cg ''single'' = Inr 0
                          \<and> calculate_ca_state_tax income cg ''married'' = Inr 0)
   \<and> (income < 0 \<longrightarrow>
        (\<exists>r. us_calculate_marginal_rates income ''single'' = Inr r \<and> federal r = 0
               \<and> california r = 0)
      \<and> (\<exists>r. us_calculate_marginal_rates income ''married'' = Inr r \<and> federal r = 0
               \<and> california r = 0))
   \<and> (m < 0 \<longrightarrow> tax_rate (cn_calculate_marginal_rates m) = 0)
   \<and> (taxable_income (calculate_tax m d) \<le> 0 \<longrightarrow> tax (calculate_tax m d) = 0)
   \<and> taxable_income (calculate_tax m d) =
       m - 5000 - personal_total (personal (calculate_social_insurance m))
         - (housing_rent d + housing_loan d + children_edu d + continuing_edu d
            + elderly_care d + medical_expense d)
   \<and> tax (calculate_tax m d) =
       (if 0 < taxable_income (calculate_tax m d)
        then cn_bracket_loop TAX_BRACKETS (taxable_income (calculate_tax m d) * 12) 0
        else 0) / 12"
proof -
  have 1: "x \<le> 0 \<longrightarrow> us_bracket_loop T x 0 = 0" by (simp add: us_loop_nonpos)
  have 2: "x \<le> 0 \<and> valid_table T \<longrightarrow> cn_bracket_loop T x 0 = 0"
    using contribution_zero[of 0 T x] by (simp add: cn_loop_valid_sum valid_table_def)
  have 3: "x < 0 \<and> valid_table T \<longrightarrow> bracket_rate_lookup T x = 0"
    using rate_lookup_below[of 0 T x] by (simp add: valid_table_def)
  have 4: "income < 0 \<longrightarrow> calculate_federal_tax income ''single'' = Inr 0
                     \<and> calculate_federal_tax income ''married'' = Inr 0"
    by (simp add: calculate_federal_tax_def bind_err_def lookup_status_def
        STANDARD_DEDUCTION_def FEDERAL_BRACKETS_def Let_def max_def us_loop_nonpos)
  have 5: "income + cg < 0 \<longrightarrow> calculate_ca_state_tax income cg ''single'' = Inr 0
                          \<and> calculate_ca_state_tax income cg ''married'' = Inr 0"
    by (simp add: calculate_ca_state_tax_def bind_err_def lookup_status_def
        CA_STANDARD_DEDUCTION_def CA_BRACKETS_def Let_def max_def us_loop_nonpos)
  have 6: "income < 0 \<longrightarrow>
        (\<exists>r. us_calculate_marginal_rates income ''single'' = Inr r \<and> federal r = 0
               \<and> california r = 0)
      \<and> (\<exists>r. us_calculate_marginal_rates income ''married'' = Inr r \<and> federal r = 0
               \<and> california r = 0)"
    using us_marginal_negative[of income] by blast
  have 7: "m < 0 \<longrightarrow> tax_rate (cn_calculate_marginal_rates m) = 0"
    using rate_lookup_below[of 0 TAX_BRACKETS "m * 12"] valid_TAX_BRACKETS
    by (simp add: cn_calculate_marginal_rates_def Let_def valid_table_def
        mult_less_0_iff)
  have 8: "taxable_income (calculate_tax m d) \<le> 0 \<longrightarrow> tax (calculate_tax m d) = 0"
    by (simp add: calculate_tax_def Let_def)
  have 9: "taxable_income (calculate_tax m d) =
       m - 5000 - personal_total (personal (calculate_social_insurance m))
         - (housing_rent d + housing_loan d + children_edu d + continuing_edu d
            + elderly_care d + medical_expense d)"
    by (simp add: calculate_tax_def Let_def TAX_FREE_THRESHOLD_def)
  have 10: "tax (calculate_tax m d) =
       (if 0 < taxable_income (calculate_tax m d)
        then cn_bracket_loop TAX_BRACKETS (taxable_income (calculate_tax m d) * 12) 0
        else 0) / 12"
    by (simp add: calculate_tax_def Let_def)
  show ?thesis by (intro conjI) (fact 1 2 3 4 5 6 7 8 9 10)+
qed

theorem negative_inputs_accepted_witness:
  "(-5::real) \<le> 0 \<and> valid_table TAX_BRACKETS
   \<and> taxable_income (calculate_tax (-5) no_deductions) \<le> 0
   \<and> us_bracket_loop TAX_BRACKETS (-5) 0 = 0
   \<and> cn_bracket_loop TAX_BRACKETS (-5) 0 = 0
   \<and> bracket_rate_lookup TAX_BRACKETS (-5) = 0
   \<and> calculate_federal_tax (-5) ''single'' = Inr 0
   \<and> calculate_ca_state_tax (-5) 0 ''married'' = Inr 0
   \<and> tax_rate (cn_calculate_marginal_rates (-5)) = 0
   \<and> tax (calculate_tax (-5) no_deductions) = 0"
proof -
  have a: "(-5::real) \<le> 0" "(-5::real) < 0" "(-5::real) + 0 < 0" by simp_all
  have v: "valid_table TAX_BRACKETS"
    by (simp add: valid_table_def TAX_BRACKETS_def bracket_def)
  have t: "taxable_income (calculate_tax (-5) no_deductions) \<le> 0"
    by (simp add: calculate_tax_def calculate_social_insurance_def no_deductions_def Let_def
        cn_constants)
  note n = negative_inputs_accepted[of "-5" TAX_BRACKETS "-5" 0 "-5" no_deductions]
  from n a have 1: "us_bracket_loop TAX_BRACKETS (-5) 0 = 0" by blast
  from n a v have 2: "cn_bracket_loop TAX_BRACKETS (-5) 0 = 0" by blast
  from n a v have 3: "bracket_rate_lookup TAX_BRACKETS (-5) = 0" by blast
  from n a have 4: "calculate_federal_tax (-5) ''single'' = Inr 0" by blast
  from n a have 5: "calculate_ca_state_tax (-5) 0 ''married'' = Inr 0" by blast
  from n a have 6: "tax_rate (cn_calculate_marginal_rates (-5)) = 0" by blast
  from n t have 7: "tax (calculate_tax (-5) no_deductions) = 0" by blast
  show ?thesis by (intro conjI) (fact a v t 1 2 3 4 5 6 7)+
qed

section \<open>What the 401(k) contribution changes (us_tax.py)\<close>

lemma known_status_lookups:
  "s = ''single'' \<or> s = ''married'' \<Longrightarrow>
   \<exists>sd F csd C G. lookup_status STANDARD_DEDUCTION s = Inr sd
     \<and> lookup_status FEDERAL_BRACKETS s = Inr F
     \<and> lookup_status CA_STANDARD_DEDUCTION s = Inr csd
     \<and> lookup_status CA_BRACKETS s = Inr C
     \<and> lookup_status CAPITAL_GAINS_BRACKETS s = Inr G"
  by (auto simp: lookup_status_def us_tables)

lemma tax_result_for_fica_sdi:
  assumes "s = ''single'' \<or> s = ''married''"
  shows "\<exists>r. tax_result_for a cg k s = Inr r \<and> fica_taxes r = calculate_fica_taxes a
            \<and> sdi_tax r = calculate_ca_sdi a"
proof -
  from known_status_lookups[OF assms] obtain sd F csd C G
    where l: "lookup_status STANDARD_DEDUCTION s = Inr sd"
      "lookup_status FEDERAL_BRACKETS s = Inr F"
      "lookup_status CA_STANDARD_DEDUCTION s = Inr csd"
      "lookup_status CA_BRACKETS s = Inr C"
      "lookup_status CAPITAL_GAINS_BRACKETS s = Inr G" by blast
  show ?thesis
    by (simp add: tax_result_for_def calculate_federal_tax_def calculate_ca_state_tax_def
        calculate_capital_gains_tax_def us_calculate_marginal_rates_def bind_err_def Let_def l)
qed

text \<open>
  C10, as amended. \<^verbatim>\<open>calculate_tax_results\<close> computes the FICA taxes and the California
  SDI from the unadjusted annual income: two calls with the same annual income and capital
  gains return, whatever the two 401(k) contributions, results for \<^verbatim>\<open>single\<close> and
  \<^verbatim>\<open>married\<close> whose \<^verbatim>\<open>fica_taxes\<close> and \<^verbatim>\<open>sdi_tax\<close> fields are the same, namely
  \<^verbatim>\<open>calculate_fica_taxes(annual_income)\<close> and \<^verbatim>\<open>calculate_ca_sdi(annual_income)\<close>. The
  fields the contribution can change are \<^verbatim>\<open>federal_tax\<close>, \<^verbatim>\<open>capital_gains_tax\<close>,
  \<^verbatim>\<open>ca_tax\<close>, \<^verbatim>\<open>total_tax\<close>, \<^verbatim>\<open>marginal_rates\<close> and \<^verbatim>\<open>net_income\<close>.
\<close>

theorem fica_and_sdi_ignore_401k:
  "\<exists>r1 r2 r1' r2'.
      calculate_tax_results a cg k = Inr [(''single'', r1), (''married'', r2)]
    \<and> calculate_tax_results a cg k' = Inr [(''single'', r1'), (''married'', r2')]
    \<and> fica_taxes r1 = fica_taxes r1' \<and> sdi_tax r1 = sdi_tax r1'
    \<and> fica_taxes r2 = fica_taxes r2' \<and> sdi_tax r2 = sdi_tax r2'
    \<and> fica_taxes r1 = calculate_fica_taxes a \<and> sdi_tax r1 = calculate_ca_sdi a
    \<and> fica_taxes r2 = calculate_fica_taxes a \<and> sdi_tax r2 = calculate_ca_sdi a"
proof -
  obtain r1 where r1: "tax_result_for a cg k ''single'' = Inr r1"
      "fica_taxes r1 = calculate_fica_taxes a" "sdi_tax r1 = calculate_ca_sdi a"
    using tax_result_for_fica_sdi[of "''single''" a cg k] by auto
  obtain r2 where r2: "tax_result_for a cg k ''married'' = Inr r2"
      "fica_taxes r2 = calculate_fica_taxes a" "sdi_tax r2 = calculate_ca_sdi a"
    using tax_result_for_fica_sdi[of "''married''" a cg k] by auto
  obtain r1' where r1': "tax_result_for a cg k' ''single'' = Inr r1'"
      "fica_taxes r1' = calculate_fica_taxes a" "sdi_tax r1' = calculate_ca_sdi a"
    using tax_result_for_fica_sdi[of "''single''" a cg k'] by auto
  obtain r2' where r2': "tax_result_for a cg k' ''married'' = Inr r2'"
      "fica_taxes r2' = calculate_fica_taxes a" "sdi_tax r2' = calculate_ca_sdi a"
    using tax_result_for_fica_sdi[of "''married''" a cg k'] by auto
  have "calculate_tax_results a cg k = Inr [(''single'', r1), (''married'', r2)]"
    by (simp add: calculate_tax_results_def bind_err_def r1(1) r2(1))
  moreover have "calculate_tax_results a cg k' = Inr [(''single'', r1'), (''married'', r2')]"
    by (simp add: calculate_tax_results_def bind_err_def r1'(1) r2'(1))
  ultimately show ?thesis
    using r1(2,3) r2(2,3) r1'(2,3) r2'(2,3) by auto
qed

text \<open>
  C10. The claim lists the fields that the 401(k) contribution changes and leaves
  \<^verbatim>\<open>total_tax\<close> out. For the annual income 100000 without capital gains, the
  contributions 0 and 23000 give different \<^verbatim>\<open>total_tax\<close> fields, for both filing
  statuses.
\<close>

theorem total_tax_depends_on_401k:
  "\<exists>r1 r2 r1' r2'.
      calculate_tax_results 100000 0 0 = Inr [(''single'', r1), (''married'', r2)]
    \<and> calculate_tax_results 100000 0 23000 = Inr [(''single'', r1'), (''married'', r2')]
    \<and> total_tax r1 = 27845.091 \<and> total_tax r1' = 20646.091
    \<and> total_tax r2 = 19184.48 \<and> total_tax r2' = 15277.36
    \<and> total_tax r1 \<noteq> total_tax r1' \<and> total_tax r2 \<noteq> total_tax r2'"
  by (simp add: calculate_tax_results_def tax_result_for_def calculate_federal_tax_def
      calculate_capital_gains_tax_def calculate_ca_state_tax_def calculate_fica_taxes_def
      calculate_ca_sdi_def us_calculate_marginal_rates_def bind_err_def lookup_status_def
      Let_def us_tables us_constants bracket_def)

section \<open>The social-insurance base (cn_tax.py)\<close>

text \<open>
  C9. For every monthly salary, \<^verbatim>\<open>calculate_social_insurance\<close> returns the base
  \<open>min (max salary 3613) 31884\<close>, which lies in \<open>[3613, 31884]\<close>; every personal
  component is the base times its rate, the personal total is the base times
  \<open>0.08 + 0.02 + 0.005 + 0.12\<close>, and the total is positive whatever the salary, also
  for a salary of zero.
\<close>

theorem social_insurance_base_clamped:
  "base (calculate_social_insurance s) = min (max s 3613) 31884
   \<and> 3613 \<le> base (calculate_social_insurance s)
   \<and> base (calculate_social_insurance s) \<le> 31884
   \<and> pension (personal (calculate_social_insurance s)) = base (calculate_social_insurance s) * 0.08
   \<and> medical (personal (calculate_social_insurance s)) = base (calculate_social_insurance s) * 0.02
   \<and> unemployment (personal (calculate_social_insurance s)) = base (calculate_social_insurance s) * 0.005
   \<and> housing_fund (personal (calculate_social_insurance s)) = base (calculate_social_insurance s) * 0.12
   \<and> personal_total (personal (calculate_social_insurance s)) =
       base (calculate_social_insurance s) * (0.08 + 0.02 + 0.005 + 0.12)
   \<and> 0 < personal_total (personal (calculate_social_insurance s))
   \<and> personal_total (personal (calculate_social_insurance 0)) = 3613 * (0.08 + 0.02 + 0.005 + 0.12)"
  by (simp add: calculate_social_insurance_def Let_def cn_constants algebra_simps)

end
